theory Spec2Isabelle imports Complex_Main begin

section \<open>Values of the exchange\<close>

text \<open>
  The payload of an item has the Mongoose type \<open>Mixed\<close>: any value that the JSON body
  parser produces. Numbers are kept as rationals (the exact value of the decimal literal),
  objects as association lists of their properties.
\<close>

datatype json =
    JNull
  | JBool bool
  | JNum rat
  | JStr string
  | JArr "json list"
  | JObj "(string \<times> json) list"

text \<open>
  A property that may be missing (JavaScript's \<open>undefined\<close>) is an \<open>option\<close>.
  \<open>truthy\<close> is JavaScript's conversion to a boolean, the meaning of \<open>!x\<close> negated:
  \<open>undefined\<close>, \<open>null\<close>, \<open>false\<close>, \<open>0\<close> and the empty string are falsy.
\<close>

fun truthy :: "json option \<Rightarrow> bool" where
  "truthy None = False"
| "truthy (Some JNull) = False"
| "truthy (Some (JBool b)) = b"
| "truthy (Some (JNum n)) = (n \<noteq> 0)"
| "truthy (Some (JStr s)) = (s \<noteq> [])"
| "truthy (Some (JArr xs)) = True"
| "truthy (Some (JObj kvs)) = True"

text \<open>\<open>x.length\<close> on a truthy value: arrays and strings have one, an object has it when
  it has a property of that name, numbers and booleans do not.\<close>

fun js_length :: "json \<Rightarrow> json option" where
  "js_length (JArr xs) = Some (JNum (of_nat (length xs)))"
| "js_length (JStr s) = Some (JNum (of_nat (length s)))"
| "js_length (JObj kvs) = map_of kvs ''length''"
| "js_length v = None"

section \<open>Strings: upper-casing, decimal digits, parseInt\<close>

definition is_lower :: "char \<Rightarrow> bool" where
  "is_lower c = (97 \<le> (of_char c :: nat) \<and> (of_char c :: nat) \<le> 122)"

definition upper_char :: "char \<Rightarrow> char" where
  "upper_char c = (if is_lower c then char_of ((of_char c :: nat) - 32) else c)"

text \<open>\<open>String.prototype.toUpperCase\<close> on ASCII text: a letter \<open>a\<close> to \<open>z\<close> becomes its
  capital, every other character, the digits of a code among them, is left as it is. The
  codes of the collection are strings of digits; a character beyond ASCII is outside the
  model.\<close>

definition toUpperCase :: "string \<Rightarrow> string" where
  "toUpperCase s = map upper_char s"

definition digit_char :: "nat \<Rightarrow> char" where
  "digit_char d = ''0123456789'' ! d"

text \<open>\<open>Number.prototype.toString\<close> on a non-negative integer below \<open>10^21\<close>: its decimal
  digits, without leading zeros.\<close>

fun toString :: "nat \<Rightarrow> string" where
  "toString n = (if n < 10 then [digit_char n] else toString (n div 10) @ [digit_char (n mod 10)])"

declare toString.simps [simp del]

definition is_ws :: "char \<Rightarrow> bool" where
  "is_ws c = ((of_char c :: nat) \<in> {9, 10, 11, 12, 13, 32, 160})"

text \<open>The value of a character as a digit of the given radix, if it is one.\<close>

definition digit_val :: "nat \<Rightarrow> char \<Rightarrow> nat option" where
  "digit_val radix c =
     (let n = (of_char c :: nat);
          v = (if 48 \<le> n \<and> n \<le> 57 then Some (n - 48)
               else if 97 \<le> n \<and> n \<le> 122 then Some (n - 87)
               else if 65 \<le> n \<and> n \<le> 90 then Some (n - 55)
               else None)
      in case v of None \<Rightarrow> None | Some d \<Rightarrow> if d < radix then Some d else None)"

definition digits_value :: "nat \<Rightarrow> string \<Rightarrow> nat" where
  "digits_value radix z = foldl (\<lambda>a c. a * radix + the (digit_val radix c)) 0 z"

text \<open>
  \<open>parseInt(s)\<close> with no radix: leading white space is skipped, a sign is read, the prefix
  \<open>0x\<close> selects radix 16, and the longest run of digits is the value; \<open>None\<close> is \<open>NaN\<close>.
  The result is an exact integer here; the handler only compares it with the length of an
  array and with 0, where a double and the integer it approximates agree.
\<close>

definition parseInt :: "string \<Rightarrow> int option" where
  "parseInt s =
     (let s1 = dropWhile is_ws s;
          (sign, s2) = (case s1 of
                          c # t \<Rightarrow> if c = CHR ''-'' then (- 1 :: int, t)
                                   else if c = CHR ''+'' then (1, t) else (1, s1)
                        | [] \<Rightarrow> (1, s1));
          (radix, s3) = (case s2 of
                           c # d # t \<Rightarrow> if c = CHR ''0'' \<and> (d = CHR ''x'' \<or> d = CHR ''X'')
                                        then (16 :: nat, t) else (10, s2)
                         | _ \<Rightarrow> (10, s2));
          z = takeWhile (\<lambda>c. digit_val radix c \<noteq> None) s3
      in if z = [] then None else Some (sign * int (digits_value radix z)))"

text \<open>
  \<open>res.setHeader(name, value)\<close> throws when the value holds a character that is not legal
  in a header: a control character other than the tab, or DEL.
\<close>

definition header_char_ok :: "char \<Rightarrow> bool" where
  "header_char_ok ch = ((of_char ch :: nat) = 9 \<or> (32 \<le> (of_char ch :: nat) \<and> (of_char ch :: nat) \<noteq> 127))"

definition header_ok :: "string \<Rightarrow> bool" where
  "header_ok v = list_all header_char_ok v"

section \<open>The data model\<close>

text \<open>\<open>DataItemSchema\<close>. A date is the number of milliseconds it stands for; a field that
  was never set is \<open>None\<close>.\<close>

record item =
  data :: "json option"
  fileName :: "string option"
  fileType :: "string option"
  fileSize :: "nat option"
  isFile :: bool
  downloaded :: bool
  downloadedAt :: "nat option"

text \<open>\<open>DataSchema\<close>.\<close>

record dataEntry =
  code :: string
  items :: "item list"
  verified :: bool
  createdAt :: nat
  verifiedAt :: "nat option"

text \<open>
  The collection of \<open>DataModel\<close> is the list of its documents in insertion order; a document
  is identified by its position, which stands for its \<open>_id\<close>.
\<close>

type_synonym db = "dataEntry list"


section \<open>The code generator\<close>

text \<open>
  JavaScript's numbers are IEEE 754 doubles. A finite double is a rational number, and the
  result of \<open>*\<close> and \<open>+\<close> is the exact result rounded to the nearest double, ties to the
  even significand. \<open>expo x\<close> is the exponent of a positive \<open>x\<close>, the integer \<open>e\<close> with
  \<open>2^e \<le> x < 2^(e+1)\<close>; \<open>ulp x\<close> is the distance between neighbouring doubles around
  \<open>x\<close> (53 significant bits, subnormal below \<open>2^-1022\<close>); \<open>fl x\<close> is \<open>x\<close> rounded to a
  double. Overflow to \<open>Infinity\<close> is not represented: the numbers of the generator stay
  below \<open>2^20\<close>.
\<close>

fun ilog2 :: "nat \<Rightarrow> nat" where
  "ilog2 n = (if n < 2 then 0 else Suc (ilog2 (n div 2)))"

declare ilog2.simps [simp del]

definition expo :: "rat \<Rightarrow> int" where
  "expo x = (if 1 \<le> x then int (ilog2 (nat \<lfloor>x\<rfloor>))
             else - int (Suc (ilog2 (nat \<lceil>1 / x\<rceil> - 1))))"

definition ulp :: "rat \<Rightarrow> rat" where
  "ulp x = 2 powi (max (expo \<bar>x\<bar>) (- 1022) - 52)"

definition round_half_even :: "rat \<Rightarrow> int" where
  "round_half_even y =
     (let f = \<lfloor>y\<rfloor>; d = y - of_int f
      in if d < 1 / 2 then f
         else if 1 / 2 < d then f + 1
         else if even f then f else f + 1)"

definition fl :: "rat \<Rightarrow> rat" where
  "fl x = (if x = 0 then 0 else of_int (round_half_even (x / ulp x)) * ulp x)"

text \<open>
  \<open>generateCode\<close>, as a function of the double \<open>r\<close> that \<open>Math.random()\<close> returns:
  \<open>Math.floor(100000 + r * 900000).toString()\<close>, the product and the sum rounded as the
  machine rounds them.
\<close>

definition generateCode :: "rat \<Rightarrow> string" where
  "generateCode r = toString (nat \<lfloor>fl (100000 + fl (r * 900000))\<rfloor>)"

section \<open>The store\<close>

datatype store_error = ValidationFailed | DuplicateKey | DocumentNotFound

text \<open>\<open>DataModel.findOne({ code })\<close>: the first document with that code, with its position.\<close>

fun findOne_at :: "string \<Rightarrow> nat \<Rightarrow> db \<Rightarrow> (nat \<times> dataEntry) option" where
  "findOne_at c n [] = None"
| "findOne_at c n (d # ds) = (if code d = c then Some (n, d) else findOne_at c (Suc n) ds)"

definition findOne :: "string \<Rightarrow> db \<Rightarrow> (nat \<times> dataEntry) option" where
  "findOne c db = findOne_at c 0 db"

text \<open>
  Validation before a document is written: \<open>data\<close> of an item and \<open>code\<close> are
  \<open>required\<close>. For a \<open>Mixed\<close> path that excludes \<open>undefined\<close> and \<open>null\<close>, for a
  string the empty string as well.
\<close>

definition valid_item :: "item \<Rightarrow> bool" where
  "valid_item it = (data it \<noteq> None \<and> data it \<noteq> Some JNull)"

definition valid_entry :: "dataEntry \<Rightarrow> bool" where
  "valid_entry d = (code d \<noteq> [] \<and> list_all valid_item (items d))"

text \<open>
  The schemas set no \<open>minimize\<close> option, so Mongoose writes a document minimized: a
  property whose value is an object without properties is left out, from the inside out;
  the elements of an array are kept, each with its own properties minimized.
  \<open>clone_min v\<close> is the copy of \<open>v\<close> that is written when \<open>v\<close> is kept; a value whose copy
  is the empty object is left out, so \<open>data\<close> is missing in the stored item.
\<close>

fun clone_min :: "json \<Rightarrow> json" where
  "clone_min (JObj kvs) =
     JObj (filter (\<lambda>(k, w). w \<noteq> JObj []) (map (\<lambda>(k, v). (k, clone_min v)) kvs))"
| "clone_min (JArr xs) = JArr (map clone_min xs)"
| "clone_min v = v"

definition stored_value :: "json option \<Rightarrow> json option" where
  "stored_value v =
     (case v of
        None \<Rightarrow> None
      | Some w \<Rightarrow> if clone_min w = JObj [] then None else Some (clone_min w))"

definition stored_item :: "item \<Rightarrow> item" where
  "stored_item it = it\<lparr>data := stored_value (data it)\<rparr>"

definition stored_entry :: "dataEntry \<Rightarrow> dataEntry" where
  "stored_entry d = d\<lparr>items := map stored_item (items d)\<rparr>"

text \<open>\<open>save()\<close> of a new document: validation of the document in memory, then the insert
  of its minimized copy, which the unique index on \<open>code\<close> rejects when a document with
  that code is in the collection.\<close>

definition insert_new :: "dataEntry \<Rightarrow> db \<Rightarrow> store_error + db" where
  "insert_new d db =
     (if \<not> valid_entry d then Inl ValidationFailed
      else if findOne (code d) db \<noteq> None then Inl DuplicateKey
      else Inr (db @ [stored_entry d]))"

text \<open>
  \<open>save()\<close> of a document \<open>d\<close> that was fetched from position \<open>pos\<close> and changed in memory
  by \<open>upd\<close>: the changed document is validated, then the modified paths alone are written,
  that is, \<open>upd\<close> is applied to the document as the collection holds it now.
\<close>

definition save :: "nat \<Rightarrow> dataEntry \<Rightarrow> (dataEntry \<Rightarrow> dataEntry) \<Rightarrow> db \<Rightarrow> store_error + db" where
  "save pos d upd db =
     (if \<not> valid_entry (upd d) then Inl ValidationFailed
      else if pos < length db then Inr (db[pos := upd (db ! pos)])
      else Inl DocumentNotFound)"


section \<open>Requests and responses\<close>

text \<open>The parsed body of \<open>POST /api/generate-code\<close>: the two properties the handler reads.\<close>

record gen_body =
  body_data :: "json option"
  body_multipleData :: "json option"

text \<open>
  A file as multer hands it over. A \<open>Buffer\<close> is represented by its base-64 text, so
  \<open>file.buffer.toString("base64")\<close> is the field itself and \<open>Buffer.from(s, "base64")\<close> is
  \<open>s\<close>.
\<close>

record upload_file =
  buffer :: string
  originalname :: string
  mimetype :: string
  size :: nat

datatype error_text =
    Text string
  | TextWithCause string store_error

datatype file_meta =
  FileMeta (meta_fileName: "string option") (meta_fileType: "string option")
           (meta_fileSize: "nat option")

datatype item_info =
  ItemInfo (info_id: nat) (info_isFile: bool) (info_fileName: "string option")
           (info_fileType: "string option") (info_fileSize: "nat option")
           (info_downloaded: bool) (info_data: "json option")

text \<open>
  What a handler sends: \<open>Failure status error\<close> is \<open>res.status(status).json({ error })\<close>;
  every other constructor is a response with status 200, with the properties of its body
  in the order of the source. \<open>JsonDownload\<close> holds the object that is serialised and the
  name of the attachment, \<open>FileDownload\<close> the buffer, the name of the attachment and the
  content type.
\<close>

datatype response =
    Failure (status: nat) (error: error_text)
  | Generated (r_code: string) (r_itemCount: nat) (r_message: string)
  | Uploaded string "file_meta list" string
  | Verified string "item_info list" nat bool nat
  | DataInfo string "item_info list" nat bool nat "nat option"
  | FileDownload string string string
  | JsonDownload string int "json option" nat string
  | Deleted string

text \<open>The projection of the items that \<open>verify-code\<close> and \<open>GET /api/data/:code\<close> return:
  \<open>data\<close> is \<open>null\<close> for a file.\<close>

definition item_info_of :: "nat \<Rightarrow> item \<Rightarrow> item_info" where
  "item_info_of index it =
     ItemInfo index (isFile it) (fileName it) (fileType it) (fileSize it) (downloaded it)
       (if isFile it then Some JNull else data it)"

definition item_infos :: "item list \<Rightarrow> item_info list" where
  "item_infos its = map (\<lambda>(index, it). item_info_of index it) (enumerate 0 its)"

section \<open>The handlers\<close>

text \<open>
  The loop \<open>while (!isUnique)\<close> of both ingestion handlers. \<open>rs\<close> are the values that the
  successive calls of \<open>Math.random()\<close> return; the loop has not returned after all of them
  when every one of them gave a code that is in use (\<open>None\<close>).
\<close>

fun unique_code_loop :: "rat list \<Rightarrow> db \<Rightarrow> string option" where
  "unique_code_loop [] db = None"
| "unique_code_loop (r # rs) db =
     (let c = generateCode r
      in if findOne c db = None then Some c else unique_code_loop rs db)"

definition structured_item :: "json option \<Rightarrow> item" where
  "structured_item v =
     \<lparr>data = v, fileName = None, fileType = None, fileSize = None,
      isFile = False, downloaded = False, downloadedAt = None\<rparr>"

definition new_entry :: "string \<Rightarrow> item list \<Rightarrow> nat \<Rightarrow> dataEntry" where
  "new_entry c its now =
     \<lparr>code = c, items = its, verified = False, createdAt = now, verifiedAt = None\<rparr>"

text \<open>The items that \<open>POST /api/generate-code\<close> builds from the body. The test
  \<open>multipleData && Array.isArray(multipleData)\<close> holds exactly of an array, which is
  truthy; in the other branch \<open>data\<close> may be missing.\<close>

definition structured_items :: "gen_body \<Rightarrow> item list" where
  "structured_items body =
     (case body_multipleData body of
        Some (JArr xs) \<Rightarrow> map (\<lambda>v. structured_item (Some v)) xs
      | _ \<Rightarrow> [structured_item (body_data body)])"

text \<open>The test that answers 400: \<open>!data && (!multipleData || multipleData.length === 0)\<close>.\<close>

definition data_missing :: "gen_body \<Rightarrow> bool" where
  "data_missing body =
     (\<not> truthy (body_data body) \<and>
      (\<not> truthy (body_multipleData body) \<or>
       js_length (the (body_multipleData body)) = Some (JNum 0)))"

text \<open>The part of \<open>POST /api/generate-code\<close> from \<open>new DataModel\<close> on, with the code chosen.\<close>

definition generate_store :: "string \<Rightarrow> item list \<Rightarrow> nat \<Rightarrow> db \<Rightarrow> response \<times> db" where
  "generate_store c its now db =
     (case insert_new (new_entry c its now) db of
        Inl e \<Rightarrow> (Failure 500 (Text ''Failed to generate code''), db)
      | Inr db' \<Rightarrow>
          (Generated c (length its)
             (toString (length its) @ '' data item(s) stored and code generated successfully''),
           db'))"

text \<open>
  \<open>POST /api/generate-code\<close>, with the collection \<open>db\<close> that the lookups of the loop see
  and the collection \<open>db'\<close> at the time of the insert: the handler awaits in between, and
  other requests may have written.
\<close>

definition generate_code_at :: "gen_body \<Rightarrow> rat list \<Rightarrow> nat \<Rightarrow> db \<Rightarrow> db \<Rightarrow> (response \<times> db) option" where
  "generate_code_at body rs now db db' =
     (if data_missing body then Some (Failure 400 (Text ''Data is required''), db')
      else case unique_code_loop rs db of
             None \<Rightarrow> None
           | Some c \<Rightarrow> Some (generate_store c (structured_items body) now db'))"

text \<open>\<open>POST /api/generate-code\<close> when no other request writes meanwhile.\<close>

definition generate_code :: "gen_body \<Rightarrow> rat list \<Rightarrow> nat \<Rightarrow> db \<Rightarrow> (response \<times> db) option" where
  "generate_code body rs now db = generate_code_at body rs now db db"

definition file_item :: "upload_file \<Rightarrow> item" where
  "file_item f =
     \<lparr>data = Some (JStr (buffer f)), fileName = Some (originalname f),
      fileType = Some (mimetype f), fileSize = Some (size f),
      isFile = True, downloaded = False, downloadedAt = None\<rparr>"

text \<open>The part of \<open>POST /api/upload-file\<close> from \<open>new DataModel\<close> on. An error of the store
  is not \<open>LIMIT_FILE_SIZE\<close>, so the answer is 500 with the error's message appended.\<close>

definition upload_store :: "string \<Rightarrow> item list \<Rightarrow> nat \<Rightarrow> db \<Rightarrow> response \<times> db" where
  "upload_store c its now db =
     (case insert_new (new_entry c its now) db of
        Inl e \<Rightarrow> (Failure 500 (TextWithCause ''Failed to upload file: '' e), db)
      | Inr db' \<Rightarrow>
          (Uploaded c (map (\<lambda>it. FileMeta (fileName it) (fileType it) (fileSize it)) its)
             (toString (length its) @ '' file(s) uploaded and code generated successfully''),
           db'))"

text \<open>\<open>POST /api/upload-file\<close>, from the point where multer has filled \<open>req.files\<close>
  (\<open>None\<close> when it is \<open>undefined\<close>), with the collection \<open>db\<close> that the lookups of the
  loop see and the collection \<open>db'\<close> at the time of the insert.\<close>

definition upload_file_at :: "upload_file list option \<Rightarrow> rat list \<Rightarrow> nat \<Rightarrow> db \<Rightarrow> db \<Rightarrow> (response \<times> db) option" where
  "upload_file_at files rs now db db' =
     (case files of
        None \<Rightarrow> Some (Failure 400 (Text ''At least one file is required''), db')
      | Some fs \<Rightarrow>
          if length fs = 0 then Some (Failure 400 (Text ''At least one file is required''), db')
          else case unique_code_loop rs db of
                 None \<Rightarrow> None
               | Some c \<Rightarrow> Some (upload_store c (map file_item fs) now db'))"

text \<open>\<open>POST /api/upload-file\<close> when no other request writes meanwhile.\<close>

definition upload_file :: "upload_file list option \<Rightarrow> rat list \<Rightarrow> nat \<Rightarrow> db \<Rightarrow> (response \<times> db) option" where
  "upload_file files rs now db = upload_file_at files rs now db db"

text \<open>The change \<open>verified = true; verifiedAt = new Date()\<close>.\<close>

definition mark_verified :: "nat \<Rightarrow> dataEntry \<Rightarrow> dataEntry" where
  "mark_verified now d = d\<lparr>verified := True, verifiedAt := Some now\<rparr>"

text \<open>
  \<open>POST /api/verify-code\<close>. \<open>code\<close> is the property of the body; a truthy value that is not
  a string has no \<open>toUpperCase\<close>, the call throws and the \<open>catch\<close> answers 500.
\<close>

definition verify_code :: "json option \<Rightarrow> nat \<Rightarrow> db \<Rightarrow> response \<times> db" where
  "verify_code c now db =
     (if \<not> truthy c then (Failure 400 (Text ''Code is required''), db)
      else case c of
        Some (JStr s) \<Rightarrow>
          (case findOne (toUpperCase s) db of
             None \<Rightarrow> (Failure 404 (Text ''Invalid code''), db)
           | Some (pos, dataEntry) \<Rightarrow>
               (let dataEntry' = mark_verified now dataEntry
                in case save pos dataEntry (mark_verified now) db of
                     Inl e \<Rightarrow> (Failure 500 (Text ''Failed to verify code''), db)
                   | Inr db' \<Rightarrow>
                       (Verified (code dataEntry') (item_infos (items dataEntry'))
                          (length (item_infos (items dataEntry'))) True (createdAt dataEntry'),
                        db')))
      | _ \<Rightarrow> (Failure 500 (Text ''Failed to verify code''), db))"

text \<open>\<open>GET /api/data/:code\<close>.\<close>

definition get_data :: "string \<Rightarrow> db \<Rightarrow> response \<times> db" where
  "get_data c db =
     (case findOne (toUpperCase c) db of
        None \<Rightarrow> (Failure 404 (Text ''Data not found''), db)
      | Some (pos, dataEntry) \<Rightarrow>
          (DataInfo (code dataEntry) (item_infos (items dataEntry))
             (length (item_infos (items dataEntry))) (verified dataEntry)
             (createdAt dataEntry) (verifiedAt dataEntry),
           db))"

text \<open>The change \<open>item.downloaded = true; item.downloadedAt = new Date()\<close> of item \<open>k\<close>.\<close>

definition mark_downloaded :: "nat \<Rightarrow> nat \<Rightarrow> dataEntry \<Rightarrow> dataEntry" where
  "mark_downloaded k now d =
     d\<lparr>items := (items d)[k := (items d ! k)\<lparr>downloaded := True, downloadedAt := Some now\<rparr>]\<rparr>"

text \<open>The names and header values of a download.\<close>

definition file_name_of :: "string \<Rightarrow> string \<Rightarrow> item \<Rightarrow> string" where
  "file_name_of c itemId it =
     (if fileName it = None \<or> fileName it = Some [] then ''file-'' @ c @ ''-'' @ itemId
      else the (fileName it))"

definition content_type_of :: "item \<Rightarrow> string" where
  "content_type_of it =
     (if fileType it = None \<or> fileType it = Some [] then ''application/octet-stream''
      else the (fileType it))"

definition json_name :: "string \<Rightarrow> string \<Rightarrow> string" where
  "json_name c itemId = ''data-'' @ c @ ''-'' @ itemId @ ''.json''"

definition content_disposition :: "string \<Rightarrow> string" where
  "content_disposition name = ''attachment; filename='' @ [CHR 0x22] @ name @ [CHR 0x22]"

text \<open>
  The part of \<open>GET /api/download/:code/:itemId\<close> after \<open>save()\<close>: the response is built
  from the item. In the file branch \<open>Buffer.from\<close> throws on a value that is not text, and
  in both branches \<open>res.setHeader\<close> throws on a value with an illegal character; the
  \<open>catch\<close> then answers 500, and the item stays marked.
\<close>

definition download_response :: "string \<Rightarrow> string \<Rightarrow> int \<Rightarrow> dataEntry \<Rightarrow> item \<Rightarrow> response" where
  "download_response c itemId itemIndex dataEntry it =
     (if isFile it
      then (case data it of
              Some (JStr s) \<Rightarrow>
                if header_ok (content_type_of it) \<and>
                   header_ok (content_disposition (file_name_of c itemId it))
                then FileDownload s (file_name_of c itemId it) (content_type_of it)
                else Failure 500 (Text ''Failed to download data'')
            | _ \<Rightarrow> Failure 500 (Text ''Failed to download data''))
      else if header_ok (content_disposition (json_name c itemId))
           then JsonDownload (code dataEntry) itemIndex (data it) (createdAt dataEntry)
                  (json_name c itemId)
           else Failure 500 (Text ''Failed to download data''))"

text \<open>
  \<open>GET /api/download/:code/:itemId\<close>, from the document that \<open>findOne\<close> returned on.
  \<open>NaN\<close> is neither below 0 nor at least the length, so it passes the test of the index;
  \<open>items[NaN]\<close> is \<open>undefined\<close>, reading its \<open>downloaded\<close> throws, and the \<open>catch\<close>
  answers 500.
\<close>

definition download_item :: "string \<Rightarrow> string \<Rightarrow> nat \<Rightarrow> (nat \<times> dataEntry) option \<Rightarrow> db \<Rightarrow> response \<times> db" where
  "download_item c itemId now fetched db =
     (case fetched of
        None \<Rightarrow> (Failure 404 (Text ''Data not found''), db)
      | Some (pos, dataEntry) \<Rightarrow>
          (case parseInt itemId of
             None \<Rightarrow> (Failure 500 (Text ''Failed to download data''), db)
           | Some itemIndex \<Rightarrow>
               if itemIndex < 0 \<or> itemIndex \<ge> int (length (items dataEntry))
               then (Failure 404 (Text ''Item not found''), db)
               else if downloaded (items dataEntry ! nat itemIndex)
               then (Failure 410 (Text ''This item has already been downloaded''), db)
               else
                 (let dataEntry' = mark_downloaded (nat itemIndex) now dataEntry
                  in case save pos dataEntry (mark_downloaded (nat itemIndex) now) db of
                       Inl e \<Rightarrow> (Failure 500 (Text ''Failed to download data''), db)
                     | Inr db' \<Rightarrow>
                         (download_response c itemId itemIndex dataEntry'
                            (items dataEntry' ! nat itemIndex),
                          db'))))"

text \<open>\<open>GET /api/download/:code/:itemId\<close>: the lookup, then the rest of the handler.\<close>

definition download :: "string \<Rightarrow> string \<Rightarrow> nat \<Rightarrow> db \<Rightarrow> response \<times> db" where
  "download c itemId now db = download_item c itemId now (findOne (toUpperCase c) db) db"





section \<open>Requests that overlap\<close>








section \<open>Invariants of the collection\<close>





section \<open>Example data\<close>

definition hello_item :: item where
  "hello_item = structured_item (Some (JStr ''hello''))"

definition photo_item :: item where
  "photo_item = file_item \<lparr>buffer = ''aGk='', originalname = ''hi.txt'', mimetype = ''text/plain'', size = 2\<rparr>"

definition example_entry :: dataEntry where
  "example_entry =
     new_entry ''123456''
       [hello_item, photo_item, hello_item\<lparr>downloaded := True, downloadedAt := Some 5\<rparr>] 1"

definition example_db :: db where
  "example_db = [example_entry]"

text \<open>The body \<open>{data: {}}\<close>, and the collection after its ingestion with the draw 0.5 at
  the date 1 into the empty collection: the item is stored without \<open>data\<close>.\<close>

definition empty_object_body :: gen_body where
  "empty_object_body = \<lparr>body_data = Some (JObj []), body_multipleData = None\<rparr>"

definition empty_object_db :: db where
  "empty_object_db = [new_entry ''550000'' [structured_item None] 1]"

text \<open>The body \<open>{multipleData: ["hello", {}]}\<close>, and the collection after its ingestion.\<close>

definition hello_object_body :: gen_body where
  "hello_object_body =
     \<lparr>body_data = None, body_multipleData = Some (JArr [JStr ''hello'', JObj []])\<rparr>"

definition hello_object_db :: db where
  "hello_object_db = [new_entry ''550000'' [hello_item, structured_item None] 1]"

section \<open>Facts about the store\<close>

lemma findOne_at_Some:
  "findOne_at c n db = Some (p, d) \<Longrightarrow> n \<le> p \<and> p - n < length db \<and> db ! (p - n) = d \<and> code d = c"
proof (induction db arbitrary: n)
  case Nil
  then show ?case by simp
next
  case (Cons a db)
  show ?case
  proof (cases "code a = c")
    case True
    with Cons.prems show ?thesis by simp
  next
    case False
    with Cons.prems have "findOne_at c (Suc n) db = Some (p, d)" by simp
    from Cons.IH[OF this] show ?thesis by (auto simp: Suc_diff_le nth_Cons')
  qed
qed

lemma findOne_Some:
  "findOne c db = Some (p, d) \<Longrightarrow> p < length db \<and> db ! p = d \<and> code d = c"
  using findOne_at_Some[of c 0 db p d] by (simp add: findOne_def)

lemma findOne_at_None: "findOne_at c n db = None \<longleftrightarrow> (\<forall>d \<in> set db. code d \<noteq> c)"
  by (induction db arbitrary: n) auto

lemma findOne_None: "findOne c db = None \<longleftrightarrow> (\<forall>d \<in> set db. code d \<noteq> c)"
  by (simp add: findOne_def findOne_at_None)

lemma findOne_at_update:
  "findOne_at c n db = Some (p, d) \<Longrightarrow> code d' = c \<Longrightarrow>
   findOne_at c n (db[p - n := d']) = Some (p, d')"
proof (induction db arbitrary: n)
  case Nil
  then show ?case by simp
next
  case (Cons a db)
  show ?case
  proof (cases "code a = c")
    case True
    with Cons.prems show ?thesis by simp
  next
    case False
    with Cons.prems have rec: "findOne_at c (Suc n) db = Some (p, d)" by simp
    then have "Suc n \<le> p" using findOne_at_Some by blast
    then have "p - n = Suc (p - Suc n)" by simp
    with Cons.IH[OF rec Cons.prems(2)] False show ?thesis by simp
  qed
qed

lemma findOne_update:
  "findOne c db = Some (p, d) \<Longrightarrow> code d' = c \<Longrightarrow> findOne c (db[p := d']) = Some (p, d')"
  using findOne_at_update[of c 0 db p d d'] by (simp add: findOne_def)

lemma list_all_update: "list_all P xs \<Longrightarrow> P x \<Longrightarrow> list_all P (xs[i := x])"
  by (auto simp: list_all_iff dest: set_update_subset_insert[THEN subsetD])

lemma toUpperCase_Nil: "toUpperCase s = [] \<longleftrightarrow> s = []"
  by (simp add: toUpperCase_def)

lemma item_infos_length: "length (item_infos its) = length its"
  by (simp add: item_infos_def)

lemma item_infos_nth:
  "i < length its \<Longrightarrow> item_infos its ! i = item_info_of i (its ! i)"
  by (simp add: item_infos_def nth_enumerate_eq)

lemmas example_defs =
  example_db_def example_entry_def hello_item_def photo_item_def new_entry_def
  structured_item_def file_item_def

lemmas string_defs =
  toUpperCase_def upper_char_def is_lower_def parseInt_def is_ws_def digit_val_def
  digits_value_def

lemma example_found: "findOne (toUpperCase ''123456'') example_db = Some (0, example_entry)"
  by (simp add: findOne_def example_db_def string_defs) (simp add: example_entry_def new_entry_def)

lemma example_valid: "valid_entry example_entry"
  by (simp add: valid_entry_def valid_item_def example_defs)

section \<open>Rounding to a double\<close>

lemma ilog2_bounds: "0 < n \<Longrightarrow> 2 ^ ilog2 n \<le> n \<and> n < 2 ^ Suc (ilog2 n)"
proof (induction n rule: ilog2.induct)
  case (1 n)
  show ?case
  proof (cases "n < 2")
    case True
    with "1.prems" have "n = 1" by simp
    then show ?thesis by (simp add: ilog2.simps)
  next
    case False
    then have "0 < n div 2" by simp
    from "1.IH"[OF False this] have "2 ^ ilog2 (n div 2) \<le> n div 2" "n div 2 < 2 ^ Suc (ilog2 (n div 2))"
      by simp_all
    then have "2 * 2 ^ ilog2 (n div 2) \<le> n" "n < 2 * 2 ^ Suc (ilog2 (n div 2))"
      by linarith+
    with False show ?thesis by (subst (1 2) ilog2.simps) simp
  qed
qed

lemma pow2_le_of_nat: "2 ^ k \<le> n \<Longrightarrow> (2::rat) ^ k \<le> of_nat n"
proof -
  assume "2 ^ k \<le> n"
  then have "(of_nat (2 ^ k) :: rat) \<le> of_nat n" by (simp only: of_nat_le_iff)
  then show ?thesis by simp
qed

lemma of_nat_Suc_le_pow2: "n + 1 \<le> 2 ^ k \<Longrightarrow> (of_nat n + 1 :: rat) \<le> 2 ^ k"
proof -
  assume "n + 1 \<le> 2 ^ k"
  then have "(of_nat (n + 1) :: rat) \<le> of_nat (2 ^ k)" by (simp only: of_nat_le_iff)
  then show ?thesis by simp
qed

lemma powi_neg_nat: "(2::rat) powi (- int k) = 1 / 2 ^ k"
  by (simp only: power_int_minus power_int_of_nat inverse_eq_divide)

lemma expo_bounds:
  assumes "0 < x"
  shows "2 powi expo x \<le> x \<and> x < 2 powi (expo x + 1)"
proof (cases "1 \<le> x")
  case True
  let ?n = "nat \<lfloor>x\<rfloor>"
  from True have f1: "1 \<le> \<lfloor>x\<rfloor>" by simp
  then have n: "0 < ?n" by simp
  have cast: "(of_nat ?n :: rat) = of_int \<lfloor>x\<rfloor>" using f1 by simp
  have fl: "of_nat ?n \<le> x" "x < of_nat ?n + 1"
    unfolding cast by linarith+
  from ilog2_bounds[OF n] have b: "2 ^ ilog2 ?n \<le> ?n" "?n + 1 \<le> 2 ^ Suc (ilog2 ?n)" by simp_all
  have lo: "(2::rat) ^ ilog2 ?n \<le> x"
    using pow2_le_of_nat[OF b(1)] fl(1) by linarith
  have hi: "x < (2::rat) ^ Suc (ilog2 ?n)"
    using of_nat_Suc_le_pow2[OF b(2)] fl(2) by linarith
  have e: "expo x = int (ilog2 ?n)" using True by (simp add: expo_def)
  have e1: "expo x + 1 = int (Suc (ilog2 ?n))" using e by simp
  show ?thesis unfolding e1 unfolding e power_int_of_nat using lo hi by blast
next
  case False
  let ?y = "1 / x"
  let ?m = "nat \<lceil>?y\<rceil> - 1"
  from False assms have y: "1 < ?y" by simp
  then have c2: "2 \<le> \<lceil>?y\<rceil>" by linarith
  then have m: "0 < ?m" by simp
  have "int ?m = \<lceil>?y\<rceil> - 1" using c2 by linarith
  then have "(of_int (int ?m) :: rat) = of_int (\<lceil>?y\<rceil> - 1)" by (rule arg_cong)
  then have cast: "(of_nat ?m :: rat) = of_int \<lceil>?y\<rceil> - 1" by simp
  have my: "of_nat ?m < ?y" "?y \<le> of_nat ?m + 1"
    unfolding cast by linarith+
  from ilog2_bounds[OF m] have b: "2 ^ ilog2 ?m \<le> ?m" "?m + 1 \<le> 2 ^ Suc (ilog2 ?m)" by simp_all
  have ylo: "(2::rat) ^ ilog2 ?m < ?y"
    using pow2_le_of_nat[OF b(1)] my(1) by linarith
  have yhi: "?y \<le> (2::rat) ^ Suc (ilog2 ?m)"
    using of_nat_Suc_le_pow2[OF b(2)] my(2) by linarith
  have e: "expo x = - int (Suc (ilog2 ?m))" using False by (simp add: expo_def)
  have e1: "expo x + 1 = - int (ilog2 ?m)" using e by simp
  have p1: "(2::rat) powi (- int (Suc (ilog2 ?m))) = 1 / 2 ^ Suc (ilog2 ?m)"
    by (rule powi_neg_nat)
  have p2: "(2::rat) powi (- int (ilog2 ?m)) = 1 / 2 ^ ilog2 ?m"
    by (rule powi_neg_nat)
  have pos: "(0::rat) < 2 ^ Suc (ilog2 ?m)" "(0::rat) < 2 ^ ilog2 ?m" by simp_all
  have "1 / 2 ^ Suc (ilog2 ?m) \<le> x"
  proof -
    have "1 \<le> x * 2 ^ Suc (ilog2 ?m)"
      using yhi assms pos(1) by (simp only: pos_divide_le_eq mult.commute)
    then show ?thesis using pos(1) by (simp only: pos_divide_le_eq)
  qed
  moreover have "x < 1 / 2 ^ ilog2 ?m"
  proof -
    have "x * 2 ^ ilog2 ?m < 1"
      using ylo assms by (simp only: pos_less_divide_eq mult.commute)
    then show ?thesis using pos(2) by (simp only: pos_less_divide_eq)
  qed
  ultimately show ?thesis unfolding e1 unfolding e p1 p2 by blast
qed


lemma expo_less:
  assumes "0 < x" "x < 2 powi K"
  shows "expo x < K"
proof (rule ccontr)
  assume "\<not> expo x < K"
  then have "(2::rat) powi K \<le> 2 powi expo x" by (intro power_int_increasing) simp_all
  with expo_bounds[OF assms(1)] assms(2) show False by linarith
qed

lemma expo_ge:
  assumes "0 < x" "2 powi K \<le> x"
  shows "K \<le> expo x"
proof (rule ccontr)
  assume "\<not> K \<le> expo x"
  then have "(2::rat) powi (expo x + 1) \<le> 2 powi K" by (intro power_int_increasing) simp_all
  with expo_bounds[OF assms(1)] assms(2) show False by linarith
qed

lemma round_half_even_ge: "of_int a \<le> y \<Longrightarrow> a \<le> round_half_even y"
proof -
  assume "of_int a \<le> y"
  then have "a \<le> \<lfloor>y\<rfloor>" by (simp add: le_floor_iff)
  then show ?thesis by (simp add: round_half_even_def Let_def)
qed

lemma round_half_even_le:
  assumes "y \<le> of_int b"
  shows "round_half_even y \<le> b"
proof (cases "\<lfloor>y\<rfloor> = b")
  case True
  have "of_int \<lfloor>y\<rfloor> \<le> y" by simp
  with assms True have "y = of_int b" by simp
  then show ?thesis by (simp add: round_half_even_def)
next
  case False
  from assms have "\<lfloor>y\<rfloor> \<le> b" by (simp add: floor_le_iff)
  with False have "\<lfloor>y\<rfloor> + 1 \<le> b" by simp
  then show ?thesis by (simp add: round_half_even_def Let_def)
qed

lemma round_half_even_below_half:
  assumes "y < of_int b - 1 / 2"
  shows "round_half_even y \<le> b - 1"
proof (cases "\<lfloor>y\<rfloor> = b - 1")
  case True
  then have "y - of_int \<lfloor>y\<rfloor> < 1 / 2" using assms by simp
  with True show ?thesis by (simp add: round_half_even_def Let_def)
next
  case False
  have "of_int \<lfloor>y\<rfloor> \<le> y" by simp
  with assms have "(of_int \<lfloor>y\<rfloor> :: rat) < of_int b" by linarith
  then have "\<lfloor>y\<rfloor> < b" by (simp only: of_int_less_iff)
  with False have "\<lfloor>y\<rfloor> + 1 \<le> b - 1" by simp
  then show ?thesis by (simp add: round_half_even_def Let_def)
qed

lemma ulp_pos: "0 < ulp x"
  by (simp add: ulp_def zero_less_power_int)

lemma fl_ge:
  assumes "of_int A * ulp x \<le> x"
  shows "of_int A * ulp x \<le> fl x"
proof (cases "x = 0")
  case True
  with assms show ?thesis by (simp add: fl_def)
next
  case False
  from assms have "of_int A \<le> x / ulp x" by (simp add: pos_le_divide_eq ulp_pos)
  then have "A \<le> round_half_even (x / ulp x)" by (rule round_half_even_ge)
  then have "(of_int A :: rat) \<le> of_int (round_half_even (x / ulp x))" by (simp only: of_int_le_iff)
  then have "of_int A * ulp x \<le> of_int (round_half_even (x / ulp x)) * ulp x"
    using ulp_pos[of x] by (simp only: mult_le_cancel_right_pos)
  with False show ?thesis by (simp add: fl_def)
qed

lemma fl_le:
  assumes "x \<le> of_int B * ulp x"
  shows "fl x \<le> of_int B * ulp x"
proof (cases "x = 0")
  case True
  with assms show ?thesis by (simp add: fl_def)
next
  case False
  from assms have "x / ulp x \<le> of_int B" by (simp add: pos_divide_le_eq ulp_pos)
  then have "round_half_even (x / ulp x) \<le> B" by (rule round_half_even_le)
  then have "(of_int (round_half_even (x / ulp x)) :: rat) \<le> of_int B" by (simp only: of_int_le_iff)
  then have "of_int (round_half_even (x / ulp x)) * ulp x \<le> of_int B * ulp x"
    using ulp_pos[of x] by (simp only: mult_le_cancel_right_pos)
  with False show ?thesis by (simp add: fl_def)
qed

text \<open>Below \<open>2^20\<close> the doubles are at most \<open>2^-33\<close> apart, and every multiple of \<open>2^-33\<close>
  is a multiple of the spacing.\<close>

lemma ulp_divides:
  assumes "0 < x" "x < 2 powi 20"
  shows "\<exists>m::nat. 2 powi (- 33) = (2::rat) ^ m * ulp x"
proof -
  let ?k = "max (expo x) (- 1022) - 52"
  from expo_less[OF assms] have "?k \<le> - 33" by simp
  then have "0 \<le> - 33 - ?k" by simp
  have "(2::rat) powi (- 33) = 2 powi ((- 33 - ?k) + ?k)" by simp
  also have "\<dots> = 2 powi (- 33 - ?k) * 2 powi ?k" by (rule power_int_add) simp
  also have "(2::rat) powi (- 33 - ?k) = 2 ^ nat (- 33 - ?k)"
    using \<open>0 \<le> - 33 - ?k\<close> by (simp add: power_int_def)
  finally show ?thesis using assms(1) by (auto simp: ulp_def)
qed

lemma grid_multiple:
  assumes "0 < x" "x < 2 powi 20"
  shows "\<exists>B. of_int Q * 2 powi (- 33) = of_int B * ulp x"
proof -
  from ulp_divides[OF assms] obtain m :: nat where m: "2 powi (- 33) = (2::rat) ^ m * ulp x"
    by blast
  have "of_int Q * 2 powi (- 33) = of_int (Q * 2 ^ m) * ulp x"
    by (simp only: m of_int_mult of_int_power of_int_numeral mult.assoc)
  then show ?thesis by blast
qed

lemma fl_between:
  assumes "0 < x" "x < 2 powi 20"
      and "of_int P * 2 powi (- 33) \<le> x" "x \<le> of_int Q * 2 powi (- 33)"
  shows "of_int P * 2 powi (- 33) \<le> fl x \<and> fl x \<le> of_int Q * 2 powi (- 33)"
proof -
  from grid_multiple[OF assms(1,2), of P] obtain A where A: "of_int P * 2 powi (- 33) = of_int A * ulp x"
    by blast
  from grid_multiple[OF assms(1,2), of Q] obtain B where B: "of_int Q * 2 powi (- 33) = of_int B * ulp x"
    by blast
  from assms(3,4) show ?thesis unfolding A B by (simp add: fl_ge fl_le)
qed


text \<open>A double below 1 is at most \<open>1 - 2^-53\<close>.\<close>

lemma double_below_one:
  assumes "fl r = r" "0 \<le> r" "r < 1"
  shows "r \<le> 1 - 2 powi (- 53)"
proof (cases "r < 1 / 2")
  case True
  then show ?thesis by simp
next
  case False
  then have pos: "0 < r" and half: "2 powi (- 1) \<le> r" by simp_all
  from assms(3) have "r < 2 powi 0" by simp
  from expo_less[OF pos this] expo_ge[OF pos half] have e: "expo r = - 1" by simp
  have u: "ulp r = 2 powi (- 53)" using pos by (simp add: ulp_def e)
  define M where "M = round_half_even (r / ulp r)"
  have "fl r = of_int M * ulp r" using pos by (simp add: fl_def M_def)
  then have r: "r = of_int M * 2 powi (- 53)" using assms(1) u by metis
  with assms(3) have "(of_int M :: rat) < of_int (2 ^ 53)" by simp
  then have "M < 2 ^ 53" by (simp only: of_int_less_iff)
  then have "M \<le> 2 ^ 53 - 1" by simp
  then have "(of_int M :: rat) \<le> of_int (2 ^ 53 - 1)" by (simp only: of_int_le_iff)
  then show ?thesis by (subst r) simp
qed

text \<open>The product \<open>Math.random() * 900000\<close> as a double is at most \<open>900000 - 2^-33\<close>, the
  largest double below 900000.\<close>

lemma product_bound:
  assumes "0 \<le> r" "r \<le> 1 - 2 powi (- 53)"
  shows "0 \<le> fl (r * 900000) \<and> fl (r * 900000) \<le> 900000 - 2 powi (- 33)"
proof (cases "r = 0")
  case True
  then show ?thesis by (simp add: fl_def)
next
  case False
  let ?x = "r * 900000"
  from False assms(1) have pos: "0 < ?x" by simp
  from assms(2) have up: "?x \<le> 900000 - 900000 * 2 powi (- 53)" by simp
  then have lt: "?x < 2 powi 20" by simp
  have "of_int 0 * ulp ?x \<le> ?x" using pos by simp
  from fl_ge[OF this] have lo: "0 \<le> fl ?x" by simp
  have a: "(900000 - 2 powi (- 33) :: rat) = of_int (900000 * 2 ^ 33 - 1) * 2 powi (- 33)"
    by simp
  show ?thesis
  proof (cases "?x \<le> 900000 - 2 powi (- 33)")
    case True
    then have "?x \<le> of_int (900000 * 2 ^ 33 - 1) * 2 powi (- 33)" by (simp only: a)
    moreover have "of_int 0 * 2 powi (- 33) \<le> ?x" using pos by simp
    ultimately have "fl ?x \<le> of_int (900000 * 2 ^ 33 - 1) * 2 powi (- 33)"
      using fl_between[OF pos lt] by blast
    with lo show ?thesis by (simp only: a)
  next
    case False
    then have big: "900000 - 2 powi (- 33) < ?x" by simp
    then have "2 powi 19 \<le> ?x" by simp
    from expo_ge[OF pos this] expo_less[OF pos lt] have e: "expo ?x = 19" by simp
    have u: "ulp ?x = 2 powi (- 33)" using pos by (simp add: ulp_def e)
    have "?x / ulp ?x < of_int (900000 * 2 ^ 33) - 1 / 2"
      using up by (simp add: u)
    then have "round_half_even (?x / ulp ?x) \<le> 900000 * 2 ^ 33 - 1"
      by (rule round_half_even_below_half)
    then have "(of_int (round_half_even (?x / ulp ?x)) :: rat) \<le> of_int (900000 * 2 ^ 33 - 1)"
      by (simp only: of_int_le_iff)
    then have "of_int (round_half_even (?x / ulp ?x)) * ulp ?x \<le>
                 of_int (900000 * 2 ^ 33 - 1) * ulp ?x"
      using ulp_pos[of ?x] by (simp only: mult_le_cancel_right_pos)
    then have "fl ?x \<le> of_int (900000 * 2 ^ 33 - 1) * 2 powi (- 33)"
      using pos by (simp add: fl_def u)
    with lo show ?thesis by (simp only: a)
  qed
qed

lemma sum_bound:
  assumes "0 \<le> p" "p \<le> 900000 - 2 powi (- 33)"
  shows "100000 \<le> fl (100000 + p) \<and> fl (100000 + p) < 1000000"
proof -
  let ?y = "100000 + p"
  from assms have pos: "0 < ?y" and lt: "?y < 2 powi 20" by simp_all
  have lo: "of_int (100000 * 2 ^ 33) * 2 powi (- 33) \<le> ?y" using assms(1) by simp
  have hi: "?y \<le> of_int (1000000 * 2 ^ 33 - 1) * 2 powi (- 33)" using assms(2) by simp
  from fl_between[OF pos lt lo hi] show ?thesis by simp
qed


section \<open>The digits of a code\<close>

lemma toString_not_Nil: "toString n \<noteq> []"
  by (subst toString.simps) simp

lemma generateCode_not_Nil: "generateCode r \<noteq> []"
  by (simp add: generateCode_def toString_not_Nil)

lemma fl_half: "fl (1 / 2) = 1 / 2"
  by (simp add: fl_def ulp_def expo_def ilog2.simps round_half_even_def)

lemma fl_450000: "fl 450000 = 450000"
  by (simp add: fl_def ulp_def expo_def ilog2.simps round_half_even_def)

lemma fl_550000: "fl 550000 = 550000"
  by (simp add: fl_def ulp_def expo_def ilog2.simps round_half_even_def)

lemma generateCode_half: "generateCode (1 / 2) = ''550000''"
  by (simp add: generateCode_def fl_450000 fl_550000 toString.simps digit_char_def)

lemma toString_length:
  "10 ^ k \<le> n \<Longrightarrow> n < 10 ^ Suc k \<Longrightarrow> length (toString n) = Suc k"
proof (induction k arbitrary: n)
  case 0
  then show ?case by (subst toString.simps) simp
next
  case (Suc k)
  have one: "1 \<le> (10::nat) ^ k" by simp
  from Suc.prems have p: "10 * 10 ^ k \<le> n" "n < 10 * 10 ^ Suc k" by simp_all
  from p(1) one have big: "\<not> n < 10" by linarith
  from p(1) have lo: "10 ^ k \<le> n div 10" by linarith
  from p(2) have hi: "n div 10 < 10 ^ Suc k" by linarith
  from Suc.IH[OF lo hi] big show ?case by (subst toString.simps) simp
qed

lemma digit_cases:
  "d < (10::nat) \<Longrightarrow>
   d = 0 \<or> d = 1 \<or> d = 2 \<or> d = 3 \<or> d = 4 \<or> d = 5 \<or> d = 6 \<or> d = 7 \<or> d = 8 \<or> d = 9"
  by presburger

lemma digit_val_digit_char: "d < 10 \<Longrightarrow> digit_val 10 (digit_char d) = Some d"
  by (drule digit_cases) (auto simp: digit_val_def digit_char_def)

lemma digit_char_zero: "d < 10 \<Longrightarrow> digit_char d = CHR ''0'' \<longleftrightarrow> d = 0"
  by (drule digit_cases) (auto simp: digit_char_def)

lemma toString_digits: "list_all (\<lambda>ch. digit_val 10 ch \<noteq> None) (toString n)"
proof (induction n rule: toString.induct)
  case (1 n)
  show ?case
  proof (cases "n < 10")
    case True
    then show ?thesis by (subst toString.simps) (simp add: digit_val_digit_char)
  next
    case False
    with "1.IH" show ?thesis by (subst toString.simps) (simp add: digit_val_digit_char)
  qed
qed

lemma toString_value: "digits_value 10 (toString n) = n"
proof (induction n rule: toString.induct)
  case (1 n)
  show ?case
  proof (cases "n < 10")
    case True
    then show ?thesis
      by (subst toString.simps) (simp add: digits_value_def digit_val_digit_char)
  next
    case False
    with "1.IH" have "digits_value 10 (toString (n div 10)) = n div 10" by simp
    with False show ?thesis
      by (subst toString.simps) (simp add: digits_value_def digit_val_digit_char)
  qed
qed

lemma toString_hd: "0 < n \<Longrightarrow> hd (toString n) \<noteq> CHR ''0''"
proof (induction n rule: toString.induct)
  case (1 n)
  show ?case
  proof (cases "n < 10")
    case True
    with "1.prems" show ?thesis by (subst toString.simps) (simp add: digit_char_zero)
  next
    case False
    then have "0 < n div 10" by simp
    from "1.IH"[OF False this] False show ?thesis
      by (subst toString.simps) (simp add: toString_not_Nil)
  qed
qed

text \<open>
  C7. For every double \<open>r\<close> with \<open>0 \<le> r < 1\<close>, which is what \<open>Math.random()\<close> returns,
  \<open>generateCode\<close> gives the decimal digits of an integer \<open>n\<close> with
  \<open>100000 \<le> n \<le> 999999\<close>: a string of exactly 6 characters, all of them digits, the
  first not \<open>0\<close>, whose value is \<open>n\<close>.
\<close>

theorem generateCode_six_digits:
  assumes "fl r = r" "0 \<le> r" "r < 1"
  shows "\<exists>n. generateCode r = toString n \<and> 100000 \<le> n \<and> n \<le> 999999 \<and>
             length (generateCode r) = 6 \<and>
             list_all (\<lambda>ch. digit_val 10 ch \<noteq> None) (generateCode r) \<and>
             hd (generateCode r) \<noteq> CHR ''0'' \<and>
             digits_value 10 (generateCode r) = n"
proof -
  let ?s = "fl (100000 + fl (r * 900000))"
  let ?n = "nat \<lfloor>?s\<rfloor>"
  from double_below_one[OF assms] have "r \<le> 1 - 2 powi (- 53)" .
  from product_bound[OF assms(2) this]
  have "0 \<le> fl (r * 900000)" "fl (r * 900000) \<le> 900000 - 2 powi (- 33)" by simp_all
  from sum_bound[OF this] have s: "100000 \<le> ?s" "?s < 1000000" by simp_all
  from s(1) have "100000 \<le> \<lfloor>?s\<rfloor>" using le_floor_iff[of 100000 ?s] by simp
  moreover from s(2) have "\<lfloor>?s\<rfloor> < 1000000" using floor_less_iff[of ?s 1000000] by simp
  ultimately have n: "100000 \<le> ?n" "?n \<le> 999999" by linarith+
  have g: "generateCode r = toString ?n" by (simp add: generateCode_def)
  have len: "length (toString ?n) = 6"
    using toString_length[of 5 ?n] n by simp
  from n(1) have "0 < ?n" by linarith
  then have "hd (toString ?n) \<noteq> CHR ''0''" by (rule toString_hd)
  with g n len toString_digits[of ?n] toString_value[of ?n] show ?thesis
    by (intro exI[of _ ?n]) simp
qed

theorem generateCode_six_digits_witness:
  "fl (1 / 2) = 1 / 2 \<and> (0::rat) \<le> 1 / 2 \<and> (1 / 2 :: rat) < 1 \<and>
   generateCode (1 / 2) = ''550000'' \<and>
   length (generateCode (1 / 2)) = 6 \<and> digits_value 10 (generateCode (1 / 2)) = 550000"
proof -
  have h: "(0::rat) \<le> 1 / 2" "(1 / 2 :: rat) < 1" by simp_all
  have v: "digits_value 10 (generateCode (1 / 2)) = 550000"
    by (simp add: generateCode_half digits_value_def digit_val_def)
  from generateCode_six_digits[OF fl_half h] generateCode_half v fl_half h
  show ?thesis by (elim exE conjE) (intro conjI; assumption)
qed

section \<open>Facts about the handlers\<close>

lemma valid_entry_mark_verified: "valid_entry (mark_verified now d) = valid_entry d"
  by (simp add: valid_entry_def mark_verified_def)

lemma valid_item_flip:
  "valid_item (it\<lparr>downloaded := True, downloadedAt := Some now\<rparr>) = valid_item it"
  by (simp add: valid_item_def)

lemma valid_entry_mark_downloaded:
  assumes "valid_entry d" "k < length (items d)"
  shows "valid_entry (mark_downloaded k now d)"
proof -
  from assms have "valid_item (items d ! k)" by (simp add: valid_entry_def list_all_length)
  with assms(1) show ?thesis
    by (simp add: valid_entry_def mark_downloaded_def list_all_update valid_item_flip)
qed


lemma mark_downloaded_nth:
  "k < length (items d) \<Longrightarrow>
   items (mark_downloaded k t d) ! k = (items d ! k)\<lparr>downloaded := True, downloadedAt := Some t\<rparr>"
  by (simp add: mark_downloaded_def)

lemma mark_downloaded_fields:
  "code (mark_downloaded k t d) = code d" "createdAt (mark_downloaded k t d) = createdAt d"
  "length (items (mark_downloaded k t d)) = length (items d)"
  by (simp_all add: mark_downloaded_def)

lemma save_found:
  assumes "findOne c db = Some (pos, d)" "valid_entry (upd d)"
  shows "save pos d upd db = Inr (db[pos := upd d])"
  using assms findOne_Some[OF assms(1)] by (simp add: save_def)


lemma found_nonempty:
  assumes "findOne (toUpperCase s) db = Some (pos, d)" "valid_entry d"
  shows "s \<noteq> []"
proof -
  from assms(1) have "code d = toUpperCase s" using findOne_Some by blast
  with assms(2) show ?thesis by (auto simp: valid_entry_def toUpperCase_Nil)
qed

text \<open>Verification of a record that passes validation.\<close>

lemma verify_found:
  assumes found: "findOne (toUpperCase s) db = Some (pos, d)" and valid: "valid_entry d"
  shows "verify_code (Some (JStr s)) now db =
           (Verified (code d) (item_infos (items d)) (length (items d)) True (createdAt d),
            db[pos := mark_verified now d])"
proof -
  have sv: "save pos d (mark_verified now) db = Inr (db[pos := mark_verified now d])"
    using save_found[OF found, of "mark_verified now"] valid
    by (simp add: valid_entry_mark_verified)
  from found_nonempty[OF found valid] found sv show ?thesis
    by (simp add: verify_code_def item_infos_length) (simp add: mark_verified_def)
qed

text \<open>Verification of a record that does not pass validation: \<open>save()\<close> throws, the answer
  is 500 and nothing is written.\<close>

lemma verify_invalid:
  assumes found: "findOne (toUpperCase s) db = Some (pos, d)" and "\<not> valid_entry d" "s \<noteq> []"
  shows "verify_code (Some (JStr s)) now db = (Failure 500 (Text ''Failed to verify code''), db)"
  using assms by (simp add: verify_code_def save_def valid_entry_mark_verified)

lemma get_data_found:
  "findOne (toUpperCase c) db = Some (pos, d) \<Longrightarrow>
   get_data c db =
     (DataInfo (code d) (item_infos (items d)) (length (items d)) (verified d) (createdAt d)
        (verifiedAt d), db)"
  by (simp add: get_data_def item_infos_length)

text \<open>The response with the payload does not depend on the mark.\<close>

lemma names_flip:
  "file_name_of c itemId (it\<lparr>downloaded := True, downloadedAt := Some t\<rparr>) = file_name_of c itemId it"
  "content_type_of (it\<lparr>downloaded := True, downloadedAt := Some t\<rparr>) = content_type_of it"
  by (simp_all add: file_name_of_def content_type_of_def)

lemma download_response_marked:
  "k < length (items d) \<Longrightarrow>
   download_response c itemId j (mark_downloaded k t d) (items (mark_downloaded k t d) ! k) =
   download_response c itemId j d (items d ! k)"
  by (auto simp: download_response_def mark_downloaded_nth mark_downloaded_fields names_flip
           split: option.split json.split)



text \<open>The download of an item that is not downloaded, from a record that passes
  validation: the item is marked, and the response is built from it.\<close>

lemma download_fresh:
  assumes found: "findOne (toUpperCase c) db = Some (pos, d)" and valid: "valid_entry d"
      and idx: "parseInt itemId = Some (int k)" "k < length (items d)"
      and fresh: "\<not> downloaded (items d ! k)"
  shows "download c itemId t db =
           (download_response c itemId (int k) d (items d ! k),
            db[pos := mark_downloaded k t d])"
proof -
  have "save pos d (mark_downloaded k t) db = Inr (db[pos := mark_downloaded k t d])"
    using save_found[OF found, of "mark_downloaded k t"] valid_entry_mark_downloaded[OF valid idx(2)]
    by simp
  with found idx fresh show ?thesis
    by (simp add: download_def download_item_def download_response_marked)
qed

lemma download_invalid:
  assumes "findOne (toUpperCase c) db = Some (pos, d)" "\<not> valid_entry (mark_downloaded k t d)"
      and "parseInt itemId = Some (int k)" "k < length (items d)" "\<not> downloaded (items d ! k)"
  shows "download c itemId t db = (Failure 500 (Text ''Failed to download data''), db)"
  using assms by (simp add: download_def download_item_def save_def)

section \<open>Consumption\<close>

lemma parseInt_zero_newline: "parseInt [CHR ''0'', CHR 0x0A] = Some 0"
  by (simp add: string_defs)

text \<open>
  C1. The failing input: the record \<open>123456\<close> exists, its item 0 is not downloaded, and the
  index in the path is \<open>0\<close> followed by a line feed, which \<open>parseInt\<close> reads as 0. The
  handler marks the item and saves; then \<open>res.setHeader\<close> throws on the line feed in the
  name of the attachment, and the answer is 500. The item is consumed and its payload was
  not returned, where the specification asks for the payload.
\<close>

theorem consume_without_payload:
  "parseInt [CHR ''0'', CHR 0x0A] = Some 0 \<and>
   \<not> downloaded (items example_entry ! 0) \<and>
   download ''123456'' [CHR ''0'', CHR 0x0A] 9 example_db =
     (Failure 500 (Text ''Failed to download data''),
      [example_entry\<lparr>items := [hello_item\<lparr>downloaded := True, downloadedAt := Some 9\<rparr>,
                                 photo_item,
                                 hello_item\<lparr>downloaded := True, downloadedAt := Some 5\<rparr>]\<rparr>])"
proof -
  have p: "parseInt [CHR ''0'', CHR 0x0A] = Some (int 0)" by (simp add: string_defs)
  have e: "0 < length (items example_entry)" "\<not> downloaded (items example_entry ! 0)"
    by (simp_all add: example_defs)
  have r: "download_response ''123456'' [CHR ''0'', CHR 0x0A] (int 0) example_entry
             (items example_entry ! 0) = Failure 500 (Text ''Failed to download data'')"
    by (simp add: download_response_def example_defs header_ok_def header_char_ok_def
          content_disposition_def json_name_def)
  from download_fresh[OF example_found example_valid p e, of 9] r p e show ?thesis
    by (simp add: example_db_def mark_downloaded_def) (simp add: example_defs)
qed

section \<open>The index of a download\<close>

text \<open>An index that \<open>parseInt\<close> reads as a number outside \<open>0 \<le> k < items.length\<close> is
  answered 404, and nothing is written; inside the range the item exists.\<close>

lemma download_out_of_range:
  assumes "findOne (toUpperCase c) db = Some (pos, d)" "parseInt itemId = Some k"
      and "k < 0 \<or> int (length (items d)) \<le> k"
  shows "download c itemId now db = (Failure 404 (Text ''Item not found''), db)"
  using assms by (auto simp: download_def download_item_def)

text \<open>
  C6. The failing input: the record \<open>123456\<close> exists and has three items, the index is the
  text \<open>abc\<close>. \<open>parseInt\<close> gives \<open>NaN\<close>, the test of the range lets it pass, and the
  response is 500 (InternalError), where the specification asks for 404 (NotFound).
\<close>

theorem download_non_numeric_index:
  "parseInt ''abc'' = None \<and>
   download ''123456'' ''abc'' 9 example_db =
     (Failure 500 (Text ''Failed to download data''), example_db)"
proof -
  have p: "parseInt ''abc'' = None" by (simp add: string_defs)
  with example_found show ?thesis by (simp add: download_def download_item_def)
qed

section \<open>Records whose payload is an empty object\<close>

lemma empty_object_ingested:
  "generate_code empty_object_body [1 / 2] 1 [] =
     Some (Generated ''550000'' 1 ''1 data item(s) stored and code generated successfully'',
           empty_object_db)"
  by (simp add: generate_code_def generate_code_at_def data_missing_def empty_object_body_def
        generateCode_half findOne_def generate_store_def insert_new_def structured_items_def
        valid_entry_def valid_item_def new_entry_def structured_item_def stored_entry_def
        stored_item_def stored_value_def empty_object_db_def toString.simps digit_char_def)

lemma empty_object_found:
  "findOne (toUpperCase ''550000'') empty_object_db =
     Some (0, new_entry ''550000'' [structured_item None] 1)"
  by (simp add: findOne_def empty_object_db_def string_defs new_entry_def)

lemma empty_object_invalid: "\<not> valid_entry (new_entry ''550000'' [structured_item None] 1)"
  by (simp add: valid_entry_def valid_item_def new_entry_def structured_item_def)

lemma hello_object_ingested:
  "generate_code hello_object_body [1 / 2] 1 [] =
     Some (Generated ''550000'' 2 ''2 data item(s) stored and code generated successfully'',
           hello_object_db)"
  by (simp add: generate_code_def generate_code_at_def data_missing_def hello_object_body_def
        generateCode_half findOne_def generate_store_def insert_new_def structured_items_def
        valid_entry_def valid_item_def new_entry_def structured_item_def stored_entry_def
        stored_item_def stored_value_def hello_object_db_def hello_item_def
        toString.simps digit_char_def)

lemma hello_object_found:
  "findOne (toUpperCase ''550000'') hello_object_db =
     Some (0, new_entry ''550000'' [hello_item, structured_item None] 1)"
  by (simp add: findOne_def hello_object_db_def string_defs new_entry_def)

lemma hello_object_invalid:
  "\<not> valid_entry (new_entry ''550000'' [hello_item, structured_item None] 1)"
  by (simp add: valid_entry_def valid_item_def new_entry_def structured_item_def)

section \<open>Verification\<close>

text \<open>
  C4. The failing input: the body \<open>{data: {}}\<close> is ingested into the empty collection, the
  answer carries the code \<open>550000\<close>, and the record is stored with an item that has no
  \<open>data\<close>, since the empty object is left out. Verification of \<open>550000\<close> then fails the
  validation of \<open>save()\<close>: the answer is 500, the record is not marked verified and no
  metadata is returned, where the specification asks for both of every existing record.
\<close>

theorem verify_fails_on_existing_record:
  "generate_code empty_object_body [1 / 2] 1 [] =
     Some (Generated ''550000'' 1 ''1 data item(s) stored and code generated successfully'',
           empty_object_db) \<and>
   verify_code (Some (JStr ''550000'')) 2 empty_object_db =
     (Failure 500 (Text ''Failed to verify code''), empty_object_db) \<and>
   list_all (\<lambda>d. \<not> verified d) empty_object_db"
proof -
  have "verify_code (Some (JStr ''550000'')) 2 empty_object_db =
     (Failure 500 (Text ''Failed to verify code''), empty_object_db)"
    by (rule verify_invalid[OF empty_object_found empty_object_invalid]) simp
  with empty_object_ingested show ?thesis
    by (simp add: empty_object_db_def new_entry_def)
qed

text \<open>Two verifications in sequence of a record that passes validation: the responses are
  the same, and \<open>verifiedAt\<close> of the record is the date of the last one.\<close>

lemma verify_twice:
  assumes found: "findOne (toUpperCase s) db = Some (pos, d)" and valid: "valid_entry d"
  shows "verify_code (Some (JStr s)) t1 db =
           (Verified (code d) (item_infos (items d)) (length (items d)) True (createdAt d),
            db[pos := mark_verified t1 d]) \<and>
         verify_code (Some (JStr s)) t2 (db[pos := mark_verified t1 d]) =
           (Verified (code d) (item_infos (items d)) (length (items d)) True (createdAt d),
            db[pos := mark_verified t2 d])"
proof -
  from found have c: "code d = toUpperCase s" using findOne_Some by blast
  have f1: "findOne (toUpperCase s) (db[pos := mark_verified t1 d]) = Some (pos, mark_verified t1 d)"
    using findOne_update[OF found, of "mark_verified t1 d"] c by (simp add: mark_verified_def)
  have v1: "valid_entry (mark_verified t1 d)" using valid by (simp add: valid_entry_mark_verified)
  from verify_found[OF found valid, of t1] verify_found[OF f1 v1, of t2] show ?thesis
    by (simp add: mark_verified_def)
qed

text \<open>
  C9. The failing input: the record \<open>550000\<close> ingested from the body \<open>{data: {}}\<close>. Two
  verifications in sequence both answer 500: neither response has \<open>verified = true\<close>, and
  the record is not marked, where the specification asks for \<open>verified = true\<close> in both
  responses for every existing code.
\<close>

theorem verify_twice_fails_on_existing_record:
  "generate_code empty_object_body [1 / 2] 1 [] =
     Some (Generated ''550000'' 1 ''1 data item(s) stored and code generated successfully'',
           empty_object_db) \<and>
   fst (verify_code (Some (JStr ''550000'')) 2 empty_object_db) =
     Failure 500 (Text ''Failed to verify code'') \<and>
   fst (verify_code (Some (JStr ''550000'')) 3
          (snd (verify_code (Some (JStr ''550000'')) 2 empty_object_db))) =
     Failure 500 (Text ''Failed to verify code'')"
proof -
  have "verify_code (Some (JStr ''550000'')) t empty_object_db =
     (Failure 500 (Text ''Failed to verify code''), empty_object_db)" for t
    by (rule verify_invalid[OF empty_object_found empty_object_invalid]) simp
  with empty_object_ingested show ?thesis by simp
qed

section \<open>Disclosure of payloads\<close>

text \<open>The metadata read returns the stored \<open>data\<close> of an item that is not a file, whatever
  its \<open>downloaded\<close> flag is.\<close>

lemma get_data_discloses:
  assumes "findOne (toUpperCase c) db = Some (pos, d)" "i < length (items d)"
      and "\<not> isFile (items d ! i)"
  shows "\<exists>infos n v tc tv.
           get_data c db = (DataInfo (code d) infos n v tc tv, db) \<and>
           info_data (infos ! i) = data (items d ! i)"
  using get_data_found[OF assms(1)] assms(2,3)
  by (simp add: item_infos_nth item_info_of_def)

text \<open>
  C10. The failing input: the body \<open>{multipleData: ["hello", {}]}\<close> is ingested into the
  empty collection; the record \<open>550000\<close> has two items that are not files, the first with
  the payload \<open>hello\<close>, the second stored without \<open>data\<close>. Verification of \<open>550000\<close> answers
  500 and returns the payload of neither item, where the specification asks for the
  payload of every item that is not a file; the metadata read returns \<open>hello\<close> and, for
  the second item, no value.
\<close>

theorem verify_discloses_no_payload:
  "generate_code hello_object_body [1 / 2] 1 [] =
     Some (Generated ''550000'' 2 ''2 data item(s) stored and code generated successfully'',
           hello_object_db) \<and>
   verify_code (Some (JStr ''550000'')) 2 hello_object_db =
     (Failure 500 (Text ''Failed to verify code''), hello_object_db) \<and>
   get_data ''550000'' hello_object_db =
     (DataInfo ''550000''
        [ItemInfo 0 False None None None False (Some (JStr ''hello'')),
         ItemInfo 1 False None None None False None]
        2 False 1 None,
      hello_object_db)"
proof -
  have v: "verify_code (Some (JStr ''550000'')) 2 hello_object_db =
     (Failure 500 (Text ''Failed to verify code''), hello_object_db)"
    by (rule verify_invalid[OF hello_object_found hello_object_invalid]) simp
  have g: "get_data ''550000'' hello_object_db =
     (DataInfo ''550000''
        [ItemInfo 0 False None None None False (Some (JStr ''hello'')),
         ItemInfo 1 False None None None False None]
        2 False 1 None,
      hello_object_db)"
    by (simp add: get_data_found[OF hello_object_found] item_infos_def item_info_of_def)
       (simp add: new_entry_def hello_item_def structured_item_def)
  from hello_object_ingested v g show ?thesis by simp
qed

section \<open>The invariant of the consumed flag\<close>




























section \<open>Ingestion\<close>

lemma unique_code_loop_Some:
  "unique_code_loop rs db = Some c \<Longrightarrow>
   findOne c db = None \<and>
   (\<exists>i < length rs. c = generateCode (rs ! i) \<and>
      (\<forall>j < i. findOne (generateCode (rs ! j)) db \<noteq> None))"
proof (induction rs)
  case Nil
  then show ?case by simp
next
  case (Cons r rs)
  show ?case
  proof (cases "findOne (generateCode r) db = None")
    case True
    with Cons.prems have "c = generateCode r" by simp
    with True show ?thesis by (intro conjI exI[of _ 0]) simp_all
  next
    case False
    with Cons.prems have "unique_code_loop rs db = Some c" by simp
    from Cons.IH[OF this] obtain i where i: "findOne c db = None" "i < length rs"
        "c = generateCode (rs ! i)" "\<forall>j < i. findOne (generateCode (rs ! j)) db \<noteq> None"
      by blast
    have "\<forall>j < Suc i. findOne (generateCode ((r # rs) ! j)) db \<noteq> None"
      using False i(4) by (auto simp: nth_Cons')
    with i show ?thesis by (intro conjI exI[of _ "Suc i"]) simp_all
  qed
qed

lemma unique_code_loop_returns:
  "\<exists>r \<in> set rs. findOne (generateCode r) db = None \<Longrightarrow> \<exists>c. unique_code_loop rs db = Some c"
  by (induction rs) (auto simp: Let_def)

lemma insert_new_fresh:
  "findOne (code d) db = None \<Longrightarrow> valid_entry d \<Longrightarrow>
   insert_new d db = Inr (db @ [stored_entry d])"
  by (simp add: insert_new_def)


text \<open>Structured ingestion answers 400 exactly when the test of the handler holds.\<close>

lemma generate_code_rejects:
  "(\<exists>e db'. generate_code body rs now db = Some (Failure 400 e, db')) \<longleftrightarrow> data_missing body"
proof -
  have "generate_store c0 its now db \<noteq> (Failure 400 e, db0)" for c0 its e db0
    by (auto simp: generate_store_def split: sum.splits)
  then show ?thesis
    by (auto simp: generate_code_def generate_code_at_def split: option.splits)
qed

text \<open>
  C5. The failing input: the body \<open>{data: 0}\<close>. A single value is present, and the answer is
  400 (ValidationError), since the test \<open>!data\<close> takes the falsy value 0 for a missing one;
  the specification asks that the value become one item, and the list path does store the
  same value from \<open>{multipleData: [0]}\<close>. The body \<open>{data: "x", multipleData: []}\<close> is a
  second failing input: the answer is a success with no item, and the value \<open>x\<close> that was
  supplied is not stored.
\<close>

theorem structured_ingestion_rejects_value:
  "generate_code \<lparr>body_data = Some (JNum 0), body_multipleData = None\<rparr> [1 / 2] 3 [] =
     Some (Failure 400 (Text ''Data is required''), []) \<and>
   generate_code \<lparr>body_data = None, body_multipleData = Some (JArr [JNum 0])\<rparr> [1 / 2] 3 [] =
     Some (Generated ''550000'' 1 ''1 data item(s) stored and code generated successfully'',
           [new_entry ''550000'' [structured_item (Some (JNum 0))] 3]) \<and>
   generate_code \<lparr>body_data = Some (JStr ''x''), body_multipleData = Some (JArr [])\<rparr> [1 / 2] 3 [] =
     Some (Generated ''550000'' 0 ''0 data item(s) stored and code generated successfully'',
           [new_entry ''550000'' [] 3])"
  by (simp add: generate_code_def generate_code_at_def data_missing_def
        generateCode_half findOne_def generate_store_def insert_new_def structured_items_def
        valid_entry_def valid_item_def new_entry_def structured_item_def stored_entry_def
        stored_item_def stored_value_def toString.simps digit_char_def)

section \<open>A duplicate code\<close>

text \<open>
  C3, as the specification states it, fails. Two ingestions overlap on the empty
  collection and both draw \<open>0.5\<close>: the loop of each finds the code \<open>550000\<close> unused. The
  first insert succeeds; the store rejects the second as a duplicate, and the handler
  answers 500 with no second attempt, for structured and for file ingestion.
\<close>

theorem duplicate_code_counterexample:
  "unique_code_loop [1 / 2] [] = Some ''550000'' \<and>
   generate_store ''550000'' [hello_item] 1 [] =
     (Generated ''550000'' 1 ''1 data item(s) stored and code generated successfully'',
      [new_entry ''550000'' [hello_item] 1]) \<and>
   insert_new (new_entry ''550000'' [hello_item] 2) [new_entry ''550000'' [hello_item] 1] =
     Inl DuplicateKey \<and>
   generate_store ''550000'' [hello_item] 2 [new_entry ''550000'' [hello_item] 1] =
     (Failure 500 (Text ''Failed to generate code''), [new_entry ''550000'' [hello_item] 1]) \<and>
   upload_store ''550000'' [photo_item] 2 [new_entry ''550000'' [hello_item] 1] =
     (Failure 500 (TextWithCause ''Failed to upload file: '' DuplicateKey),
      [new_entry ''550000'' [hello_item] 1])"
  by (simp add: generateCode_half findOne_def generate_store_def upload_store_def
        insert_new_def valid_entry_def valid_item_def new_entry_def hello_item_def
        photo_item_def structured_item_def file_item_def stored_entry_def stored_item_def
        stored_value_def toString.simps digit_char_def)


text \<open>
  C3, amended. The loop of the ingestion handlers draws a new code while the lookup before
  the insert finds a record with the candidate, and only then: the code it returns is the
  first drawn one that the lookup does not find, so the insert into the collection that
  the loop saw is never rejected as a duplicate. The handler tries the insert once, into
  the collection as it is then: when the store accepts it, the answer is the success, and
  when the store rejects it, with whatever error, the handler does not draw again: it
  answers 500 (InternalError) and the collection is as it was.
\<close>

theorem duplicate_code_handling:
  "(unique_code_loop rs db = Some c \<longrightarrow>
      findOne c db = None \<and>
      (\<exists>i < length rs. c = generateCode (rs ! i) \<and>
         (\<forall>j < i. findOne (generateCode (rs ! j)) db \<noteq> None)) \<and>
      insert_new (new_entry c its now) db \<noteq> Inl DuplicateKey) \<and>
   (\<not> data_missing body \<and> unique_code_loop rs db = Some c \<longrightarrow>
      (case insert_new (new_entry c (structured_items body) now) db' of
         Inl e \<Rightarrow>
           generate_code_at body rs now db db' =
             Some (Failure 500 (Text ''Failed to generate code''), db')
       | Inr db'' \<Rightarrow>
           generate_code_at body rs now db db' =
             Some (Generated c (length (structured_items body))
                     (toString (length (structured_items body)) @
                        '' data item(s) stored and code generated successfully''),
                   db''))) \<and>
   (fs \<noteq> [] \<and> unique_code_loop rs db = Some c \<longrightarrow>
      (case insert_new (new_entry c (map file_item fs) now) db' of
         Inl e \<Rightarrow>
           upload_file_at (Some fs) rs now db db' =
             Some (Failure 500 (TextWithCause ''Failed to upload file: '' e), db')
       | Inr db'' \<Rightarrow>
           (\<exists>metas msg. upload_file_at (Some fs) rs now db db' =
              Some (Uploaded c metas msg, db''))))"
proof (intro conjI)
  show "unique_code_loop rs db = Some c \<longrightarrow>
      findOne c db = None \<and>
      (\<exists>i < length rs. c = generateCode (rs ! i) \<and>
         (\<forall>j < i. findOne (generateCode (rs ! j)) db \<noteq> None)) \<and>
      insert_new (new_entry c its now) db \<noteq> Inl DuplicateKey"
  proof
    assume l: "unique_code_loop rs db = Some c"
    from unique_code_loop_Some[OF l] have "findOne c db = None" by blast
    then have "insert_new (new_entry c its now) db \<noteq> Inl DuplicateKey"
      by (simp add: insert_new_def new_entry_def)
    with unique_code_loop_Some[OF l] show "findOne c db = None \<and>
      (\<exists>i < length rs. c = generateCode (rs ! i) \<and>
         (\<forall>j < i. findOne (generateCode (rs ! j)) db \<noteq> None)) \<and>
      insert_new (new_entry c its now) db \<noteq> Inl DuplicateKey" by blast
  qed
  show "\<not> data_missing body \<and> unique_code_loop rs db = Some c \<longrightarrow>
      (case insert_new (new_entry c (structured_items body) now) db' of
         Inl e \<Rightarrow>
           generate_code_at body rs now db db' =
             Some (Failure 500 (Text ''Failed to generate code''), db')
       | Inr db'' \<Rightarrow>
           generate_code_at body rs now db db' =
             Some (Generated c (length (structured_items body))
                     (toString (length (structured_items body)) @
                        '' data item(s) stored and code generated successfully''),
                   db''))"
    by (simp add: generate_code_at_def generate_store_def split: sum.split)
  show "fs \<noteq> [] \<and> unique_code_loop rs db = Some c \<longrightarrow>
      (case insert_new (new_entry c (map file_item fs) now) db' of
         Inl e \<Rightarrow>
           upload_file_at (Some fs) rs now db db' =
             Some (Failure 500 (TextWithCause ''Failed to upload file: '' e), db')
       | Inr db'' \<Rightarrow>
           (\<exists>metas msg. upload_file_at (Some fs) rs now db db' =
              Some (Uploaded c metas msg, db'')))"
    by (simp add: upload_file_at_def upload_store_def split: sum.split)
qed

theorem duplicate_code_handling_witness:
  "unique_code_loop [1 / 2] [] = Some ''550000'' \<and>
   findOne ''550000'' [] = None \<and>
   insert_new (new_entry ''550000'' [hello_item] 2) [] \<noteq> Inl DuplicateKey \<and>
   insert_new (new_entry ''550000'' [hello_item] 2) [new_entry ''550000'' [hello_item] 1] =
     Inl DuplicateKey \<and>
   generate_code_at \<lparr>body_data = Some (JStr ''hello''), body_multipleData = None\<rparr> [1 / 2] 2 []
       [new_entry ''550000'' [hello_item] 1] =
     Some (Failure 500 (Text ''Failed to generate code''), [new_entry ''550000'' [hello_item] 1]) \<and>
   upload_file_at
       (Some [\<lparr>buffer = ''aGk='', originalname = ''hi.txt'', mimetype = ''text/plain'', size = 2\<rparr>])
       [1 / 2] 2 [] [new_entry ''550000'' [hello_item] 1] =
     Some (Failure 500 (TextWithCause ''Failed to upload file: '' DuplicateKey),
           [new_entry ''550000'' [hello_item] 1])"
proof -
  let ?b = "\<lparr>body_data = Some (JStr ''hello''), body_multipleData = None\<rparr>"
  let ?f = "[\<lparr>buffer = ''aGk='', originalname = ''hi.txt'', mimetype = ''text/plain'', size = 2\<rparr>]"
  let ?db = "[new_entry ''550000'' [hello_item] 1]"
  have l: "unique_code_loop [1 / 2] [] = Some ''550000''"
    by (simp add: generateCode_half findOne_def)
  have m: "\<not> data_missing ?b" by (simp add: data_missing_def)
  have si: "structured_items ?b = [hello_item]"
    by (simp add: structured_items_def hello_item_def)
  have d1: "insert_new (new_entry ''550000'' [hello_item] 2) ?db = Inl DuplicateKey"
    by (simp add: insert_new_def valid_entry_def valid_item_def new_entry_def hello_item_def
          structured_item_def findOne_def)
  have d2: "insert_new (new_entry ''550000'' (map file_item ?f) 2) ?db = Inl DuplicateKey"
    by (simp add: insert_new_def valid_entry_def valid_item_def new_entry_def file_item_def
          findOne_def)
  note t = duplicate_code_handling[of "[1 / 2]" "[]" "''550000''" "[hello_item]" 2 ?b ?db ?f]
  from t l have a: "findOne ''550000'' [] = None"
      "insert_new (new_entry ''550000'' [hello_item] 2) [] \<noteq> Inl DuplicateKey" by blast+
  from t l m have "(case insert_new (new_entry ''550000'' (structured_items ?b) 2) ?db of
         Inl e \<Rightarrow>
           generate_code_at ?b [1 / 2] 2 [] ?db =
             Some (Failure 500 (Text ''Failed to generate code''), ?db)
       | Inr db'' \<Rightarrow>
           generate_code_at ?b [1 / 2] 2 [] ?db =
             Some (Generated ''550000'' (length (structured_items ?b))
                     (toString (length (structured_items ?b)) @
                        '' data item(s) stored and code generated successfully''),
                   db''))" by blast
  then have g: "generate_code_at ?b [1 / 2] 2 [] ?db =
             Some (Failure 500 (Text ''Failed to generate code''), ?db)"
    by (simp only: si d1 sum.case)
  from t l have "(case insert_new (new_entry ''550000'' (map file_item ?f) 2) ?db of
         Inl e \<Rightarrow>
           upload_file_at (Some ?f) [1 / 2] 2 [] ?db =
             Some (Failure 500 (TextWithCause ''Failed to upload file: '' e), ?db)
       | Inr db'' \<Rightarrow>
           (\<exists>metas msg. upload_file_at (Some ?f) [1 / 2] 2 [] ?db =
              Some (Uploaded ''550000'' metas msg, db'')))" by blast
  then have u: "upload_file_at (Some ?f) [1 / 2] 2 [] ?db =
             Some (Failure 500 (TextWithCause ''Failed to upload file: '' DuplicateKey), ?db)"
    by (simp only: d2 sum.case)
  from t l a d1 g u show ?thesis by blast
qed

section \<open>Downloads that overlap\<close>



















end
